theory Spec2Isabelle
  imports
    Complex_Main
    "HOL-Library.Char_ord"
    "HOL-Library.List_Lexorder"
    "HOL-Library.Product_Lexorder"
begin

section \<open>Numbers\<close>

text \<open>
  The program computes with Python floats and with 64-bit integers. The model takes
  every number as an exact rational (\<^typ>\<open>rat\<close>) or integer: a mean is the exact
  quotient, and rounding to \<open>d\<close> decimals is exact rounding of that quotient. The
  float results differ from these by the float unit round-off (about \<open>1e-16\<close>
  relative), which is far below every gap the theorems of this file rely on.
\<close>

text \<open>
  \<open>numpy.rint\<close>: the nearest integer, a tie going to the even neighbour.
\<close>

definition rint :: "rat \<Rightarrow> int" where
  "rint y =
     (let f = \<lfloor>y\<rfloor>; d = y - of_int f
      in if d < 1 / 2 then f
         else if 1 / 2 < d then f + 1
         else if even f then f else f + 1)"

text \<open>
  \<open>Series.round(decimals)\<close> of pandas, which is \<open>numpy.round\<close>: scale by
  \<open>10 ^ decimals\<close>, take \<open>rint\<close>, scale back.
\<close>

definition np_round :: "nat \<Rightarrow> rat \<Rightarrow> rat" where
  "np_round decimals x = of_int (rint (x * 10 ^ decimals)) / 10 ^ decimals"


section \<open>Errors\<close>

text \<open>
  One constructor for each place where the program raises, carrying the values the
  message interpolates:
  \<^item> \<open>MissingColumns\<close>: \<open>ValueError("student_answers.csv manca colonne: ...")\<close>
    of \<open>load_raw_answers\<close>, with the sorted list of the missing columns;
  \<^item> \<open>StudentNotInOverall\<close>:
    \<open>ValueError("Student_id non trovato nei dati overall: ...")\<close>;
  \<^item> \<open>NoTopicScores\<close>: \<open>ValueError("Nessun topic score per student_id: ...")\<close>;
  \<^item> \<open>KeyError\<close>: what pandas raises when \<open>groupby\<close> or \<open>agg\<close> is given
    a column the table does not have, with the columns that are absent.
\<close>

datatype error =
    MissingColumns "string list"
  | StudentNotInOverall string
  | NoTopicScores string
  | KeyError "string list"

section \<open>config.py\<close>

definition STRENGTH_ACCURACY_THRESHOLD :: rat where
  "STRENGTH_ACCURACY_THRESHOLD = 80 / 100"

definition WEAKNESS_ACCURACY_THRESHOLD :: rat where
  "WEAKNESS_ACCURACY_THRESHOLD = 55 / 100"

text \<open>
  \<open>LEVEL_BANDS\<close> is a dict; \<open>items()\<close> walks it in insertion order, so it is an
  association list here.
\<close>

definition LEVEL_BANDS :: "(string \<times> rat \<times> rat) list" where
  "LEVEL_BANDS =
     [(''beginner'', 0, 50 / 100),
      (''intermediate'', 50 / 100, 75 / 100),
      (''advanced'', 75 / 100, 101 / 100)]"

section \<open>The tables of the scoring phase\<close>

text \<open>
  A row of \<open>student_topic_scores.csv\<close>. The columns \<open>student_id\<close> and
  \<open>topic\<close> occur in several tables, so they carry the prefix \<open>ts_\<close> here.
\<close>

record topic_score =
  ts_student_id :: string
  ts_topic :: string
  topic_n_questions :: nat
  topic_accuracy :: rat
  topic_avg_time_seconds :: rat
  topic_avg_confidence :: rat

text \<open>A row of \<open>student_overall_summary.csv\<close> (\<open>student_id\<close> is \<open>ov_student_id\<close>).\<close>

record overall_row =
  ov_student_id :: string
  overall_n_questions :: nat
  overall_accuracy :: rat
  overall_avg_time_seconds :: rat
  overall_avg_confidence :: rat

section \<open>profiling.py\<close>

text \<open>
  The dataclass \<open>TopicProfile\<close>; its field \<open>topic\<close> is \<open>tp_topic\<close>.
\<close>

record topic_profile =
  tp_topic :: string
  accuracy :: rat
  avg_time_seconds :: rat
  n_questions :: nat
  level :: string
  label :: string

text \<open>
  The dataclass \<open>StudentProfile\<close>; the fields that share a name with a column of
  the overall table carry the prefix \<open>sp_\<close>.
\<close>

record student_profile =
  sp_student_id :: string
  sp_overall_accuracy :: rat
  sp_overall_avg_time_seconds :: rat
  sp_overall_n_questions :: nat
  sp_overall_level :: string
  strengths :: "topic_profile list"
  weaknesses :: "topic_profile list"
  neutrals :: "topic_profile list"

text \<open>
  The loop of \<open>_accuracy_to_level\<close> over the bands: the first band with
  \<open>lo <= acc < hi\<close> returns its level, and the end of the loop returns
  \<open>"intermediate"\<close>.
\<close>

fun level_loop :: "(string \<times> rat \<times> rat) list \<Rightarrow> rat \<Rightarrow> string" where
  "level_loop [] acc = ''intermediate''"
| "level_loop ((lvl, lo, hi) # bands) acc =
     (if lo \<le> acc \<and> acc < hi then lvl else level_loop bands acc)"

definition accuracy_to_level :: "rat \<Rightarrow> string" where
  "accuracy_to_level acc = level_loop LEVEL_BANDS acc"

definition label_topic :: "rat \<Rightarrow> string" where
  "label_topic acc =
     (if acc \<ge> STRENGTH_ACCURACY_THRESHOLD then ''strength''
      else if acc \<le> WEAKNESS_ACCURACY_THRESHOLD then ''weakness''
      else ''neutral'')"

text \<open>The body of the loop over \<open>topic_rows.iterrows()\<close>.\<close>

definition topic_profile_of :: "topic_score \<Rightarrow> topic_profile" where
  "topic_profile_of r =
     (let acc = topic_accuracy r
      in \<lparr>tp_topic = ts_topic r,
          accuracy = acc,
          avg_time_seconds = topic_avg_time_seconds r,
          n_questions = topic_n_questions r,
          level = accuracy_to_level acc,
          label = label_topic acc\<rparr>)"

text \<open>
  \<open>list.sort(key=...)\<close> is stable, and with \<open>reverse=True\<close> it still keeps
  equal keys in their original order: a stable sort on the negated key.
\<close>

definition build_student_profile ::
  "string \<Rightarrow> topic_score list \<Rightarrow> overall_row list \<Rightarrow> error + student_profile" where
  "build_student_profile student_id student_topic_scores_df student_overall_df =
     (case filter (\<lambda>r. ov_student_id r = student_id) student_overall_df of
        [] \<Rightarrow> Inl (StudentNotInOverall student_id)
      | row0 # _ \<Rightarrow>
          (let topic_rows = filter (\<lambda>r. ts_student_id r = student_id) student_topic_scores_df
           in if topic_rows = [] then Inl (NoTopicScores student_id)
              else
                (let topic_profiles = map topic_profile_of topic_rows
                 in Inr
                   \<lparr>sp_student_id = student_id,
                    sp_overall_accuracy = overall_accuracy row0,
                    sp_overall_avg_time_seconds = overall_avg_time_seconds row0,
                    sp_overall_n_questions = overall_n_questions row0,
                    sp_overall_level = accuracy_to_level (overall_accuracy row0),
                    strengths =
                      sort_key (\<lambda>t. - accuracy t)
                        (filter (\<lambda>t. label t = ''strength'') topic_profiles),
                    weaknesses =
                      sort_key accuracy
                        (filter (\<lambda>t. label t = ''weakness'') topic_profiles),
                    neutrals =
                      sort_key (\<lambda>t. - accuracy t)
                        (filter (\<lambda>t. label t = ''neutral'') topic_profiles)\<rparr>)))"

text \<open>The tables of \<open>tests/test_profiling.py\<close>.\<close>

definition test_topic_scores :: "topic_score list" where
  "test_topic_scores =
     [\<lparr>ts_student_id = ''s1'', ts_topic = ''A'', topic_n_questions = 10,
       topic_accuracy = 9 / 10, topic_avg_time_seconds = 20, topic_avg_confidence = 45 / 10\<rparr>,
      \<lparr>ts_student_id = ''s1'', ts_topic = ''B'', topic_n_questions = 10,
       topic_accuracy = 4 / 10, topic_avg_time_seconds = 50, topic_avg_confidence = 2\<rparr>]"

definition test_overall :: "overall_row list" where
  "test_overall =
     [\<lparr>ov_student_id = ''s1'', overall_n_questions = 20, overall_accuracy = 65 / 100,
       overall_avg_time_seconds = 35, overall_avg_confidence = 32 / 10\<rparr>]"

section \<open>scoring.py\<close>

text \<open>
  One row of \<open>student_answers.csv\<close>: one attempt at one question. \<open>is_correct\<close>
  is 0 or 1 in a well-formed table; the aggregation takes its mean as a number. Every
  cell holds a value (no missing cells), as in the attempt schema.
\<close>

record attempt =
  student_id :: string
  test_id :: string
  question_id :: string
  topic :: string
  subskill :: string
  difficulty :: int
  correct_answer :: rat
  answer_given :: rat
  is_correct :: int
  error_type :: string
  time_seconds :: rat
  confidence :: int

text \<open>
  The data frame of the answers: the names of the columns it has, and its rows. A
  function may read a field of a row only if the column of that name is among
  \<open>df_columns\<close>; pandas raises \<open>KeyError\<close> on a column that is not there, and the
  functions below check it where pandas does.
\<close>

record answers_df =
  df_columns :: "string list"
  df_rows :: "attempt list"

definition absent_columns :: "answers_df \<Rightarrow> string list \<Rightarrow> string list" where
  "absent_columns df cols = filter (\<lambda>c. c \<notin> set (df_columns df)) cols"

definition required :: "string list" where
  "required =
     [''student_id'', ''test_id'', ''question_id'', ''topic'', ''subskill'', ''difficulty'',
      ''correct_answer'', ''answer_given'', ''is_correct'', ''error_type'', ''time_seconds'',
      ''confidence'']"


text \<open>
  \<open>groupby(keys, as_index=False)\<close>: one group for each distinct key, the groups in
  ascending order of the key (\<open>sort=True\<close> is the default), each group holding the
  rows of that key in table order.
\<close>

definition group_keys :: "('r \<Rightarrow> 'k::linorder) \<Rightarrow> 'r list \<Rightarrow> 'k list" where
  "group_keys key rows = sort (remdups (map key rows))"

definition group_rows :: "('r \<Rightarrow> 'k) \<Rightarrow> 'r list \<Rightarrow> 'k \<Rightarrow> 'r list" where
  "group_rows key rows k = filter (\<lambda>r. key r = k) rows"






text \<open>
  A row of \<open>student_topic_error_matrix.csv\<close> (long format), its first three columns
  with the prefix \<open>es_\<close>.
\<close>

record error_share_row =
  es_student_id :: string
  es_topic :: string
  es_error_type :: string
  error_share :: rat

definition student_topic_error :: "attempt \<Rightarrow> string \<times> string \<times> string" where
  "student_topic_error r = (student_id r, topic r, error_type r)"

text \<open>
  \<open>compute_student_topic_error_shares\<close>: \<open>counts\<close> holds the size \<open>n\<close> of each
  (student, topic, error type) group; \<open>totals\<close> groups \<open>counts\<close> by (student, topic)
  and sums \<open>n\<close>; the left merge gives each row of \<open>counts\<close> the \<open>total_n\<close> of its
  (student, topic), keeping the order of \<open>counts\<close>; the share is the rounded quotient.
\<close>

definition counts_of :: "attempt list \<Rightarrow> ((string \<times> string \<times> string) \<times> nat) list" where
  "counts_of rows =
     map (\<lambda>k. (k, length (group_rows student_topic_error rows k)))
       (group_keys student_topic_error rows)"

definition counts_key :: "(string \<times> string \<times> string) \<times> nat \<Rightarrow> string \<times> string" where
  "counts_key c = (fst (fst c), fst (snd (fst c)))"

definition totals_of ::
  "((string \<times> string \<times> string) \<times> nat) list \<Rightarrow> ((string \<times> string) \<times> nat) list" where
  "totals_of counts =
     map (\<lambda>k. (k, sum_list (map snd (group_rows counts_key counts k))))
       (group_keys counts_key counts)"

definition merge_left ::
  "((string \<times> string \<times> string) \<times> nat) list \<Rightarrow> ((string \<times> string) \<times> nat) list
    \<Rightarrow> ((string \<times> string \<times> string) \<times> nat \<times> nat) list" where
  "merge_left counts totals =
     concat (map (\<lambda>c. map (\<lambda>t. (fst c, snd c, snd t))
                        (filter (\<lambda>t. fst t = counts_key c) totals))
               counts)"

definition error_share_of :: "(string \<times> string \<times> string) \<times> nat \<times> nat \<Rightarrow> error_share_row" where
  "error_share_of m =
     \<lparr>es_student_id = fst (fst m),
      es_topic = fst (snd (fst m)),
      es_error_type = snd (snd (fst m)),
      error_share = np_round 4 (of_nat (fst (snd m)) / of_nat (snd (snd m)))\<rparr>"

definition compute_student_topic_error_shares ::
  "answers_df \<Rightarrow> error + error_share_row list" where
  "compute_student_topic_error_shares answers_df =
     (let absent = absent_columns answers_df [''student_id'', ''topic'', ''error_type'']
      in if absent \<noteq> [] then Inl (KeyError absent)
         else
           (let counts = counts_of (df_rows answers_df);
                totals = totals_of counts;
                merged = merge_left counts totals
            in Inr (map error_share_of merged)))"







text \<open>
  Three attempts of one student at one topic: one correct, one with an algebra error,
  one with a sign error.
\<close>

definition thirds_df :: answers_df where
  "thirds_df =
     \<lparr>df_columns = required,
      df_rows =
        [\<lparr>student_id = ''s1'', test_id = ''t1'', question_id = ''q1'', topic = ''A'',
          subskill = ''a1'', difficulty = 1, correct_answer = 1, answer_given = 1,
          is_correct = 1, error_type = ''none'', time_seconds = 10, confidence = 4\<rparr>,
         \<lparr>student_id = ''s1'', test_id = ''t1'', question_id = ''q2'', topic = ''A'',
          subskill = ''a1'', difficulty = 2, correct_answer = 2, answer_given = 0,
          is_correct = 0, error_type = ''algebra'', time_seconds = 20, confidence = 2\<rparr>,
         \<lparr>student_id = ''s1'', test_id = ''t1'', question_id = ''q3'', topic = ''A'',
          subskill = ''a1'', difficulty = 2, correct_answer = 3, answer_given = -3,
          is_correct = 0, error_type = ''segno'', time_seconds = 30, confidence = 3\<rparr>]\<rparr>"




section \<open>recommendations.py\<close>

text \<open>The dataclass \<open>Recommendation\<close>; priority 1 is high, 2 medium, 3 low.\<close>

record recommendation =
  title :: string
  why :: string
  how :: "string list"
  priority :: int

subsection \<open>Strings\<close>

text \<open>
  Python strings are modelled as byte strings in UTF-8; the three accented letters of
  the advice texts are written as their two bytes. \<open>str.lower\<close> is modelled on the
  ASCII letters, which covers the error types that the rules compare with.
\<close>

definition lower_char :: "char \<Rightarrow> char" where
  "lower_char c =
     (if CHR ''A'' \<le> c \<and> c \<le> CHR ''Z'' then char_of (of_char c + (32::nat)) else c)"

definition lower :: "string \<Rightarrow> string" where
  "lower s = map lower_char s"

text \<open>\<open>sep.join(parts)\<close>.\<close>

fun join :: "string \<Rightarrow> string list \<Rightarrow> string" where
  "join sep [] = []"
| "join sep [x] = x"
| "join sep (x # y # ys) = x @ sep @ join sep (y # ys)"

fun digits :: "nat \<Rightarrow> string" where
  "digits n =
     (if n < 10 then [char_of (48 + n)] else digits (n div 10) @ [char_of (48 + n mod 10)])"

definition str_int :: "int \<Rightarrow> string" where
  "str_int i = (if i < 0 then ''-'' @ digits (nat (- i)) else digits (nat i))"

text \<open>
  The format specifications \<open>.0%\<close> and \<open>.0f\<close>: the number (times 100 for the
  percentage) rounded to an integer, a tie going to the even neighbour, in decimal.
  The exact rational is rounded here; Python rounds the binary float, and prints
  \<open>-0\<close> for a negative number that rounds to zero. The two texts are used only
  inside \<open>why\<close>.
\<close>

definition format_percent0 :: "rat \<Rightarrow> string" where
  "format_percent0 x = str_int (rint (x * 100)) @ ''%''"

definition format_fixed0 :: "rat \<Rightarrow> string" where
  "format_fixed0 x = str_int (rint x)"

subsection \<open>The advice texts\<close>

definition maintain_pace :: recommendation where
  "maintain_pace =
     \<lparr>title = ''Mantieni il ritmo'',
      why = ''Non emergono lacune marcate: continua con esercizi di consolidamento.'',
      how =
        [''Esercizi misti 3 volte a settimana (mix di topic)'',
         ''Aggiungi 1 esercizio pi'' @ [CHR 0xC3, CHR 0xB9]
           @ '' difficile per topic per alzare il livello''],
      priority = 2\<rparr>"

definition how_segno :: "string list" where
  "how_segno =
     [''Scrivi ogni passaggio e fai un check finale sui segni (+/-)'',
      ''Fai 10 esercizi brevi al giorno SOLO su passaggi di segno'']"

definition how_algebra :: "string list" where
  "how_algebra =
     [''Ripassa regole base (distributiva, frazioni, scomposizione)'',
      ''Esercizi guidati: prima con soluzione, poi senza guardare'']"

definition how_formula :: "string list" where
  "how_formula =
     [''Crea una mini-scheda formule (max 10) e ripetila ogni giorno'',
      ''Allenati a riconoscere quale formula usare con esempi rapidi'']"

definition how_concetto :: "string list" where
  "how_concetto =
     [''Ripasso teoria con 2-3 esempi semplici (poi aumenti difficolt''
        @ [CHR 0xC3, CHR 0xA0] @ '')'',
      ''Spiega a voce il concetto in 60 secondi (se non riesci, non ''
        @ [CHR 0xC3, CHR 0xA8] @ '' chiaro)'']"

definition how_distrazione :: "string list" where
  "how_distrazione =
     [''Check finale obbligatorio: unit'' @ [CHR 0xC3, CHR 0xA0]
        @ '', segno, ordine di grandezza'',
      ''Riduci la velocit'' @ [CHR 0xC3, CHR 0xA0] @ '' del 10%: prima zero errori, poi tempo'']"

definition how_generic :: "string list" where
  "how_generic =
     [''Risolvi 15 esercizi del topic dal facile al medio, segnando gli errori'',
      ''Dopo 2 giorni, rifai gli stessi esercizi senza guardare'']"

definition how_timed :: string where
  "how_timed = ''Aggiungi 5 esercizi a tempo (timer 60-90s) per automatizzare''"

subsection \<open>The functions\<close>

text \<open>
  \<open>_top_error_types_for_topic\<close>: the rows of the (student, topic), in descending
  order of share, the first \<open>top_k\<close> of them. \<open>sort_values\<close> is modelled as a
  stable sort (equal shares stay in table order); pandas does not fix the order of
  equal keys for its default sort kind, and no theorem below depends on it.
\<close>

definition top_error_types_for_topic ::
  "string \<Rightarrow> string \<Rightarrow> error_share_row list \<Rightarrow> nat \<Rightarrow> (string \<times> rat) list" where
  "top_error_types_for_topic sid tpc student_topic_error_df top_k =
     (let sub = filter (\<lambda>r. es_student_id r = sid \<and> es_topic r = tpc) student_topic_error_df
      in if sub = [] then []
         else map (\<lambda>r. (es_error_type r, error_share r))
                (take top_k (sort_key (\<lambda>r. - error_share r) sub)))"

text \<open>
  One round of the loop over \<open>top_errors\<close>, on the pair of \<open>how\<close> and
  \<open>priorities\<close>. \<open>"none"\<close> and any other error type add nothing.
\<close>

definition error_step :: "string \<Rightarrow> string list \<times> int list \<Rightarrow> string list \<times> int list" where
  "error_step err0 st =
     (let err = lower err0; hw = fst st; priorities = snd st
      in if err = ''segno'' then (hw @ how_segno, priorities @ [1])
         else if err = ''algebra'' then (hw @ how_algebra, priorities @ [1])
         else if err = ''formula'' then (hw @ how_formula, priorities @ [2])
         else if err = ''concetto'' then (hw @ how_concetto, priorities @ [1])
         else if err = ''distrazione'' then (hw @ how_distrazione, priorities @ [2])
         else (hw, priorities))"

text \<open>
  The loop that removes repeated suggestions: \<open>seen\<close> holds what has been kept, and
  the first occurrence of each suggestion stays.
\<close>

fun dedup_loop :: "string list \<Rightarrow> string list \<Rightarrow> string list" where
  "dedup_loop seen [] = []"
| "dedup_loop seen (h # hs) =
     (if h \<notin> set seen then h # dedup_loop (h # seen) hs else dedup_loop seen hs)"

text \<open>The body of the loop over \<open>sub_scores.iterrows()\<close>, up to the \<open>append\<close>.\<close>

definition recommendation_for :: "string \<Rightarrow> error_share_row list \<Rightarrow> topic_score \<Rightarrow> recommendation" where
  "recommendation_for sid student_topic_error_df r =
     (let tpc = ts_topic r;
          acc = topic_accuracy r;
          avg_time = topic_avg_time_seconds r;
          top_errors = top_error_types_for_topic sid tpc student_topic_error_df 2;
          why_parts =
            [''Accuracy '' @ format_percent0 acc]
            @ (if avg_time > 90 then [''tempo medio alto ('' @ format_fixed0 avg_time @ ''s)'']
               else [])
            @ (if top_errors \<noteq> []
               then [''errori prevalenti: '' @ join '', '' (map fst top_errors)]
               else []);
          st0 = fold error_step (map fst top_errors) ([], []);
          st1 = (if fst st0 = [] then (how_generic, snd st0 @ [2]) else st0);
          st2 = (if avg_time > 120 then (fst st1 @ [how_timed], snd st1 @ [2]) else st1)
      in \<lparr>title = ''Migliora '' @ tpc,
          why = ''Nel topic **'' @ tpc @ ''**: '' @ join ''; '' why_parts @ ''.'',
          how = dedup_loop [] (fst st2),
          priority = (if snd st2 \<noteq> [] then min_list (snd st2) else 2)\<rparr>)"

text \<open>
  The loop over the rows: a recommendation is appended, then the loop is left if there
  are \<open>max_recommendations\<close> of them or more.
\<close>

fun recs_loop ::
  "string \<Rightarrow> error_share_row list \<Rightarrow> int \<Rightarrow> topic_score list \<Rightarrow> recommendation list
    \<Rightarrow> recommendation list" where
  "recs_loop sid err_df max_recommendations [] recs = recs"
| "recs_loop sid err_df max_recommendations (r # rows) recs =
     (let recs' = recs @ [recommendation_for sid err_df r]
      in if int (length recs') \<ge> max_recommendations then recs'
         else recs_loop sid err_df max_recommendations rows recs')"

text \<open>
  \<open>sub_scores\<close>: the rows of the student whose topic is among the weaknesses, in
  ascending order of accuracy (stable, as above).
\<close>

definition sub_scores :: "string \<Rightarrow> string list \<Rightarrow> topic_score list \<Rightarrow> topic_score list" where
  "sub_scores sid weak student_topic_scores_df =
     sort_key topic_accuracy
       (filter (\<lambda>r. ts_topic r \<in> set weak)
          (filter (\<lambda>r. ts_student_id r = sid) student_topic_scores_df))"

definition generate_recommendations ::
  "string \<Rightarrow> string list \<Rightarrow> error_share_row list \<Rightarrow> topic_score list \<Rightarrow> int
    \<Rightarrow> recommendation list" where
  "generate_recommendations sid weak student_topic_error_df student_topic_scores_df
       max_recommendations =
     (if weak = [] then [maintain_pace]
      else sort_key priority
             (recs_loop sid student_topic_error_df max_recommendations
                (sub_scores sid weak student_topic_scores_df) []))"

text \<open>
  Tables for one student with three weak topics: \<open>B\<close> (accuracy 0.40, formula
  errors), \<open>C\<close> (0.50, sign and distraction errors) and \<open>D\<close> (0.45, no error rows).
\<close>

definition weak_scores :: "topic_score list" where
  "weak_scores =
     [\<lparr>ts_student_id = ''s1'', ts_topic = ''A'', topic_n_questions = 10,
       topic_accuracy = 9 / 10, topic_avg_time_seconds = 20, topic_avg_confidence = 45 / 10\<rparr>,
      \<lparr>ts_student_id = ''s1'', ts_topic = ''C'', topic_n_questions = 10,
       topic_accuracy = 5 / 10, topic_avg_time_seconds = 130, topic_avg_confidence = 3\<rparr>,
      \<lparr>ts_student_id = ''s1'', ts_topic = ''D'', topic_n_questions = 20,
       topic_accuracy = 45 / 100, topic_avg_time_seconds = 60, topic_avg_confidence = 3\<rparr>,
      \<lparr>ts_student_id = ''s1'', ts_topic = ''B'', topic_n_questions = 10,
       topic_accuracy = 4 / 10, topic_avg_time_seconds = 50, topic_avg_confidence = 2\<rparr>,
      \<lparr>ts_student_id = ''s2'', ts_topic = ''B'', topic_n_questions = 10,
       topic_accuracy = 1 / 10, topic_avg_time_seconds = 50, topic_avg_confidence = 2\<rparr>]"

definition weak_errors :: "error_share_row list" where
  "weak_errors =
     [\<lparr>es_student_id = ''s1'', es_topic = ''B'', es_error_type = ''formula'',
       error_share = 6 / 10\<rparr>,
      \<lparr>es_student_id = ''s1'', es_topic = ''B'', es_error_type = ''none'',
       error_share = 4 / 10\<rparr>,
      \<lparr>es_student_id = ''s1'', es_topic = ''C'', es_error_type = ''distrazione'',
       error_share = 2 / 10\<rparr>,
      \<lparr>es_student_id = ''s1'', es_topic = ''C'', es_error_type = ''none'',
       error_share = 5 / 10\<rparr>,
      \<lparr>es_student_id = ''s1'', es_topic = ''C'', es_error_type = ''segno'',
       error_share = 3 / 10\<rparr>]"

section \<open>Properties of profiling.py\<close>

lemma level_loop_find:
  "level_loop bands acc =
     (case find (\<lambda>(lvl, lo, hi). lo \<le> acc \<and> acc < hi) bands of
        Some (lvl, lo, hi) \<Rightarrow> lvl
      | None \<Rightarrow> ''intermediate'')"
  by (induction bands acc rule: level_loop.induct) simp_all


text \<open>
  C7. \<open>_label_topic\<close> returns \<open>"strength"\<close> from 0.80 upwards, \<open>"weakness"\<close>
  up to 0.55 and \<open>"neutral"\<close> strictly between; the strength threshold lies above
  the weakness threshold, and no accuracy meets both conditions.
\<close>

theorem label_topic_thresholds:
  "(acc \<ge> 80 / 100 \<longrightarrow> label_topic acc = ''strength'')
   \<and> (acc \<le> 55 / 100 \<longrightarrow> label_topic acc = ''weakness'')
   \<and> (55 / 100 < acc \<and> acc < 80 / 100 \<longrightarrow> label_topic acc = ''neutral'')
   \<and> STRENGTH_ACCURACY_THRESHOLD = 80 / 100
   \<and> WEAKNESS_ACCURACY_THRESHOLD = 55 / 100
   \<and> WEAKNESS_ACCURACY_THRESHOLD < STRENGTH_ACCURACY_THRESHOLD
   \<and> \<not> (acc \<ge> STRENGTH_ACCURACY_THRESHOLD \<and> acc \<le> WEAKNESS_ACCURACY_THRESHOLD)"
  by (simp add: label_topic_def STRENGTH_ACCURACY_THRESHOLD_def
      WEAKNESS_ACCURACY_THRESHOLD_def)

theorem label_topic_thresholds_witness:
  "label_topic (9 / 10) = ''strength''
   \<and> label_topic (4 / 10) = ''weakness''
   \<and> label_topic (7 / 10) = ''neutral''"
  using label_topic_thresholds [of "9 / 10"] label_topic_thresholds [of "4 / 10"]
    label_topic_thresholds [of "7 / 10"]
  by simp

text \<open>
  C8. \<open>_accuracy_to_level\<close> returns the level of the first band \<open>[lo, hi)\<close> that
  holds the accuracy, and \<open>"intermediate"\<close> when no band does. With the configured
  bands an accuracy in \<open>[0, 1]\<close> is \<open>"beginner"\<close> below 0.50, \<open>"intermediate"\<close>
  from 0.50 to below 0.75 and \<open>"advanced"\<close> from 0.75 on, 1.0 included.
\<close>

theorem accuracy_to_level_bands:
  "accuracy_to_level acc =
     (case find (\<lambda>(lvl, lo, hi). lo \<le> acc \<and> acc < hi) LEVEL_BANDS of
        Some (lvl, lo, hi) \<Rightarrow> lvl
      | None \<Rightarrow> ''intermediate'')
   \<and> (0 \<le> acc \<and> acc < 50 / 100 \<longrightarrow> accuracy_to_level acc = ''beginner'')
   \<and> (50 / 100 \<le> acc \<and> acc < 75 / 100 \<longrightarrow> accuracy_to_level acc = ''intermediate'')
   \<and> (75 / 100 \<le> acc \<and> acc \<le> 1 \<longrightarrow> accuracy_to_level acc = ''advanced'')
   \<and> accuracy_to_level 1 = ''advanced''
   \<and> (find (\<lambda>(lvl, lo, hi). lo \<le> acc \<and> acc < hi) LEVEL_BANDS = None
        \<longrightarrow> accuracy_to_level acc = ''intermediate'')"
  unfolding accuracy_to_level_def level_loop_find
  by (simp add: LEVEL_BANDS_def)

theorem accuracy_to_level_bands_witness:
  "accuracy_to_level (4 / 10) = ''beginner''
   \<and> accuracy_to_level (5 / 10) = ''intermediate''
   \<and> accuracy_to_level (75 / 100) = ''advanced''
   \<and> accuracy_to_level 1 = ''advanced''
   \<and> find (\<lambda>(lvl, lo, hi). lo \<le> (2::rat) \<and> 2 < hi) LEVEL_BANDS = None
   \<and> accuracy_to_level 2 = ''intermediate''"
  using accuracy_to_level_bands [of "4 / 10"] accuracy_to_level_bands [of "5 / 10"]
    accuracy_to_level_bands [of "75 / 100"] accuracy_to_level_bands [of 2]
  by (simp add: LEVEL_BANDS_def)

text \<open>
  C5. \<open>build_student_profile\<close> raises exactly when the student has no row in the
  overall table or no row in the topic-score table (the \<open>ValueError\<close> of the first
  check that fails); a raise returns no profile, and otherwise a profile is returned.
\<close>

theorem build_student_profile_fails_iff:
  "(isl (build_student_profile sid ts ov) \<longleftrightarrow>
      filter (\<lambda>r. ov_student_id r = sid) ov = []
      \<or> filter (\<lambda>r. ts_student_id r = sid) ts = [])
   \<and> (filter (\<lambda>r. ov_student_id r = sid) ov = []
        \<longrightarrow> build_student_profile sid ts ov = Inl (StudentNotInOverall sid))
   \<and> (filter (\<lambda>r. ov_student_id r = sid) ov \<noteq> []
        \<and> filter (\<lambda>r. ts_student_id r = sid) ts = []
        \<longrightarrow> build_student_profile sid ts ov = Inl (NoTopicScores sid))
   \<and> (filter (\<lambda>r. ov_student_id r = sid) ov \<noteq> []
        \<and> filter (\<lambda>r. ts_student_id r = sid) ts \<noteq> []
        \<longrightarrow> (\<exists>p. build_student_profile sid ts ov = Inr p \<and> sp_student_id p = sid))"
  by (simp add: build_student_profile_def Let_def split: list.splits)

theorem build_student_profile_fails_iff_witness:
  "build_student_profile ''s2'' test_topic_scores test_overall = Inl (StudentNotInOverall ''s2'')
   \<and> build_student_profile ''s1'' [] test_overall = Inl (NoTopicScores ''s1'')
   \<and> \<not> isl (build_student_profile ''s1'' test_topic_scores test_overall)"
  using build_student_profile_fails_iff [of "''s2''" test_topic_scores test_overall]
    build_student_profile_fails_iff [of "''s1''" "[]" test_overall]
    build_student_profile_fails_iff [of "''s1''" test_topic_scores test_overall]
  by (simp add: test_overall_def test_topic_scores_def)



section \<open>Properties of scoring.py\<close>

subsection \<open>Rounding\<close>







subsection \<open>Sums over the groups of one student\<close>







subsection \<open>The error shares of one (student, topic)\<close>

text \<open>
  C1. The claim: for every (student, topic), the shares that
  \<open>compute_student_topic_error_shares\<close> returns sum to 1.0 within 1e-6. The code
  rounds each share to four decimals, so it does not hold: for three attempts of
  one student at one topic with three different error types, each share is 0.3333 and
  the sum is 0.9999.
\<close>

theorem error_shares_thirds_sum:
  "compute_student_topic_error_shares thirds_df = Inr
     [\<lparr>es_student_id = ''s1'', es_topic = ''A'', es_error_type = ''algebra'',
       error_share = 3333 / 10000\<rparr>,
      \<lparr>es_student_id = ''s1'', es_topic = ''A'', es_error_type = ''none'',
       error_share = 3333 / 10000\<rparr>,
      \<lparr>es_student_id = ''s1'', es_topic = ''A'', es_error_type = ''segno'',
       error_share = 3333 / 10000\<rparr>]
   \<and> (case compute_student_topic_error_shares thirds_df of
        Inl e \<Rightarrow> False
      | Inr shares \<Rightarrow>
          sum_list (map error_share
            (filter (\<lambda>e. es_student_id e = ''s1'' \<and> es_topic e = ''A'') shares))
            = 9999 / 10000
          \<and> \<not> \<bar>sum_list (map error_share
                 (filter (\<lambda>e. es_student_id e = ''s1'' \<and> es_topic e = ''A'') shares)) - 1\<bar>
               \<le> 1 / 1000000)"
  by code_simp

subsection \<open>Overall accuracy against the topic accuracies\<close>





subsection \<open>The check of the columns\<close>






section \<open>Properties of recommendations.py\<close>



text \<open>
  C3. With an empty list of weaknesses \<open>generate_recommendations\<close> returns exactly
  one recommendation, of priority 2 and with a non-empty \<open>how\<close>, whatever the student
  and the tables.
\<close>

theorem generate_recommendations_no_weaknesses:
  "generate_recommendations sid [] err scores m = [maintain_pace]
   \<and> length (generate_recommendations sid [] err scores m) = 1
   \<and> priority (hd (generate_recommendations sid [] err scores m)) = 2
   \<and> how (hd (generate_recommendations sid [] err scores m)) \<noteq> []"
  by (simp add: generate_recommendations_def maintain_pace_def)

theorem generate_recommendations_no_weaknesses_witness:
  "generate_recommendations ''s1'' [] weak_errors weak_scores 5 = [maintain_pace]
   \<and> priority maintain_pace = 2
   \<and> length (how maintain_pace) = 2"
  using generate_recommendations_no_weaknesses [of "''s1''" weak_errors weak_scores 5]
  by (simp add: maintain_pace_def)



text \<open>
  C10. With a non-empty list of weaknesses, if no row of the topic scores has the
  given student and a topic of that list, \<open>generate_recommendations\<close> returns the
  empty list.
\<close>

theorem generate_recommendations_no_rows:
  assumes "weak \<noteq> []"
    and "\<forall>r \<in> set scores. ts_student_id r = sid \<longrightarrow> ts_topic r \<notin> set weak"
  shows "generate_recommendations sid weak err scores m = []"
proof -
  have "filter (\<lambda>r. ts_topic r \<in> set weak) (filter (\<lambda>r. ts_student_id r = sid) scores) = []"
    using assms(2) by (auto simp: filter_empty_conv)
  then have "sub_scores sid weak scores = []"
    by (simp add: sub_scores_def)
  with assms(1) show ?thesis
    by (simp add: generate_recommendations_def)
qed

theorem generate_recommendations_no_rows_witness:
  "generate_recommendations ''s3'' [''B''] weak_errors weak_scores 5 = []
   \<and> generate_recommendations ''s2'' [''C''] weak_errors weak_scores 5 = []"
proof -
  have 1: "\<forall>r \<in> set weak_scores. ts_student_id r = ''s3'' \<longrightarrow> ts_topic r \<notin> set [''B'']"
    by (simp add: weak_scores_def)
  have 2: "\<forall>r \<in> set weak_scores. ts_student_id r = ''s2'' \<longrightarrow> ts_topic r \<notin> set [''C'']"
    by (simp add: weak_scores_def)
  have 3: "[''B''] \<noteq> ([] :: string list)" "[''C''] \<noteq> ([] :: string list)"
    by simp_all
  show ?thesis
    using generate_recommendations_no_rows [OF 3(1) 1, of weak_errors 5]
      generate_recommendations_no_rows [OF 3(2) 2, of weak_errors 5]
    by (simp only: simp_thms)
qed

end
